theory Spec2Isabelle
  imports Main "HOL-Library.Multiset" "HOL-Library.Char_ord" "HOL-Library.List_Lexorder"
begin

section \<open>Python text and exceptions\<close>

text \<open>
  The actions of \<^verbatim>\<open>actions.py\<close> return \<^verbatim>\<open>Response(result=text)\<close> or raise.
  An action's outcome is a value of \<open>exn + string\<close>: \<open>Inr text\<close> is the response
  returned to the caller, \<open>Inl e\<close> is the exception \<open>e\<close> raised to the caller.
  Every exception of the model derives from Python's \<^verbatim>\<open>Exception\<close> (engine errors,
  \<^verbatim>\<open>OSError\<close>, \<^verbatim>\<open>TypeError\<close>), so \<^verbatim>\<open>except Exception\<close> catches each of them; the
  string is what \<^verbatim>\<open>str(e)\<close> gives.

  A Python string is a list of characters; a \<^typ>\<open>char\<close> stands for the code point of
  the same number (code points above 255 are not represented).
\<close>

datatype exn = Exception string

fun str_exn :: "exn \<Rightarrow> string" where
  "str_exn (Exception m) = m"

definition digit :: "nat \<Rightarrow> char" where
  "digit d = ''0123456789'' ! d"

text \<open>\<^verbatim>\<open>str(n)\<close> for a non-negative Python int (row counts).\<close>

function str_nat :: "nat \<Rightarrow> string" where
  "str_nat n = (if n < 10 then [digit n] else str_nat (n div 10) @ [digit (n mod 10)])"
  by pat_completeness auto
termination
  by (relation "measure id") auto

declare str_nat.simps [simp del]

definition str_int :: "int \<Rightarrow> string" where
  "str_int i = (if i < 0 then CHR ''-'' # str_nat (nat (- i)) else str_nat (nat i))"

text \<open>\<^verbatim>\<open>sep.join(xs)\<close>.\<close>

fun join :: "string \<Rightarrow> string list \<Rightarrow> string" where
  "join sep [] = []"
| "join sep [x] = x"
| "join sep (x # y # ys) = x @ sep @ join sep (y # ys)"

text \<open>
  \<^verbatim>\<open>str.isspace\<close> on one character, for the code points below 256, and \<^verbatim>\<open>s.strip()\<close>,
  which removes the whitespace at both ends.
\<close>

definition isspace :: "char \<Rightarrow> bool" where
  "isspace c = (of_char c \<in> {9, 10, 11, 12, 13, 28, 29, 30, 31, 32, 133, 160 :: nat})"

definition strip :: "string \<Rightarrow> string" where
  "strip s = rev (dropWhile isspace (rev (dropWhile isspace s)))"

definition nl :: string where
  "nl = [CHR 0x0A]"

text \<open>\<^verbatim>\<open>DB_PATH = os.path.join("data", "customer_data.duckdb")\<close>, on a POSIX host.\<close>

definition DB_PATH :: string where
  "DB_PATH = ''data/customer_data.duckdb''"

section \<open>The store\<close>

text \<open>
  A cell is \<open>None\<close> for SQL \<^verbatim>\<open>NULL\<close> (fetched as Python's \<^verbatim>\<open>None\<close>) or \<open>Some v\<close>.
  The type \<open>'v\<close> of values carries the engine's ordering as its linear order.
  A table has its \<^verbatim>\<open>table_type\<close> of \<^verbatim>\<open>information_schema.tables\<close>, its columns
  (name and \<^verbatim>\<open>data_type\<close>, in \<^verbatim>\<open>ordinal_position\<close> order) and its rows in storage order.
  A database is the catalog: the tables and views by schema and name, in the order of
  their creation. The actions create in the default schema \<^verbatim>\<open>main\<close>; a statement of the
  caller can create other schemas.
\<close>

type_synonym 'v cell = "'v option"

type_synonym 'v row = "'v cell list"

record 'v table =
  table_type :: string
  columns :: "(string \<times> string) list"
  rows :: "'v row list"

type_synonym 'v database = "((string \<times> string) \<times> 'v table) list"

text \<open>
  What \<^verbatim>\<open>con.execute(sql).fetchall()\<close> and \<^verbatim>\<open>con.description\<close> give for a caller's
  statement: the fetched rows, and the column names of the result (\<open>None\<close> when the
  statement has no result set and \<^verbatim>\<open>description\<close> is \<^verbatim>\<open>None\<close>).
\<close>

record 'v exec_result =
  fetched :: "'v row list"
  description :: "string list option"

text \<open>
  The host at the time of a call: the content of the store file at \<^const>\<open>DB_PATH\<close>
  (\<open>None\<close> when the file does not exist), the files of the attachment area and the
  local filesystem (\<open>'f\<close>), what was printed, and whether opening the store or removing
  its file fails now (a missing \<^verbatim>\<open>data\<close> directory, a lock held by another process,
  a permission).
\<close>

record ('v, 'f) world =
  store :: "'v database option"
  files :: 'f
  stdout :: "string list"
  connect_failure :: "exn option"
  remove_failure :: "exn option"

text \<open>
  The collaborators the source calls and does not define: Python's \<^verbatim>\<open>str\<close> on a fetched
  value and its comparison \<^verbatim>\<open>value < 10\<close> (which raises for a value that is no number),
  \<^verbatim>\<open>pathlib\<close>, the attachment service \<^verbatim>\<open>chat.get_file\<close>, \<^verbatim>\<open>Path.rename\<close>, and the engine:
  \<^item> \<open>sql_key v\<close> stands for all the values the engine holds equal to \<open>v\<close> (it merges
    values that Python prints differently, as \<^verbatim>\<open>-0.0\<close> and \<^verbatim>\<open>0.0\<close>); \<^verbatim>\<open>DISTINCT\<close> and
    \<^verbatim>\<open>ORDER BY\<close> compare by it, in the linear order of \<open>'v\<close>;
  \<^item> \<open>ident_fold\<close> is the normal form of an identifier: the engine resolves the name of a
    table or column, quoted or not, without regard to case;
  \<^item> \<open>bind_csv\<close> is what the engine raises, if anything, while it parses and binds the
    statement text that \<^verbatim>\<open>read_csv_auto('path')\<close> is spliced into (it opens and sniffs the
    file), before any of it runs; \<open>scan_csv\<close> reads the file into a table;
  \<^item> \<open>execute\<close> is the engine on any other SQL text: what \<^verbatim>\<open>con.execute(text)\<close> raises or
    returns, and the files and the store it leaves.
\<close>

record ('v, 'f) env =
  str_value :: "'v \<Rightarrow> string"
  less_than_10 :: "'v \<Rightarrow> exn + bool"
  sql_key :: "'v \<Rightarrow> 'v"
  ident_fold :: "string \<Rightarrow> string"
  path_name :: "string \<Rightarrow> string"
  path_stem :: "string \<Rightarrow> string"
  path_suffix :: "string \<Rightarrow> string"
  path_parent :: "string \<Rightarrow> string"
  path_join :: "string \<Rightarrow> string \<Rightarrow> string"
  get_file :: "string \<Rightarrow> 'f \<Rightarrow> exn + (string \<times> 'f)"
  rename :: "string \<Rightarrow> string \<Rightarrow> 'f \<Rightarrow> exn + 'f"
  bind_csv :: "'f \<Rightarrow> string \<Rightarrow> exn option"
  scan_csv :: "'f \<Rightarrow> string \<Rightarrow> exn + 'v table"
  execute :: "string \<Rightarrow> 'f \<Rightarrow> 'v database \<Rightarrow> (exn + 'v exec_result) \<times> 'f \<times> 'v database"

text \<open>\<^verbatim>\<open>str(value)\<close> on a fetched cell.\<close>

definition py_str :: "('v, 'f) env \<Rightarrow> 'v cell \<Rightarrow> string" where
  "py_str env c = (case c of None \<Rightarrow> ''None'' | Some v \<Rightarrow> str_value env v)"

text \<open>
  \<^verbatim>\<open>duckdb.connect(database=DB_PATH)\<close>: raises when the store cannot be opened;
  otherwise opens the database of the file, creating the file with an empty database
  when it is missing.
\<close>

definition connect :: "('v, 'f) world \<Rightarrow> exn + ('v database \<times> ('v, 'f) world)" where
  "connect w =
     (case connect_failure w of
        Some e \<Rightarrow> Inl e
      | None \<Rightarrow>
          (let db = (case store w of None \<Rightarrow> [] | Some d \<Rightarrow> d)
           in Inr (db, w\<lparr>store := Some db\<rparr>)))"

section \<open>cleanup\<close>

text \<open>
  \<^verbatim>\<open>os.path.exists(DB_PATH)\<close> and \<^verbatim>\<open>os.remove(DB_PATH)\<close>.
\<close>

definition path_exists :: "('v, 'f) world \<Rightarrow> bool" where
  "path_exists w = (store w \<noteq> None)"

definition os_remove :: "('v, 'f) world \<Rightarrow> exn + ('v, 'f) world" where
  "os_remove w =
     (case remove_failure w of
        Some e \<Rightarrow> Inl e
      | None \<Rightarrow> Inr (w\<lparr>store := None\<rparr>))"

definition removed_msg :: string where
  "removed_msg = ''Database file at '' @ DB_PATH @ '' has been completely removed.''"

definition not_exist_msg :: string where
  "not_exist_msg = ''Database file at '' @ DB_PATH @ '' does not exist.''"

definition remove_error_msg :: "exn \<Rightarrow> string" where
  "remove_error_msg e = ''Error removing database: '' @ str_exn e"

text \<open>
  The whole body is inside \<^verbatim>\<open>try\<close>; \<^verbatim>\<open>con.close()\<close> leaves the file as the connection
  made it.
\<close>

definition cleanup :: "('v, 'f) world \<Rightarrow> (exn + string) \<times> ('v, 'f) world" where
  "cleanup w =
     (case connect w of
        Inl e \<Rightarrow> (Inr (remove_error_msg e), w)
      | Inr (db, w1) \<Rightarrow>
          if path_exists w1 then
            (case os_remove w1 of
               Inl e \<Rightarrow> (Inr (remove_error_msg e), w1)
             | Inr w2 \<Rightarrow> (Inr removed_msg, w2))
          else (Inr not_exist_msg, w1))"

section \<open>return\_my\_thread\_id\<close>

text \<open>
  The request exposes its headers; \<^verbatim>\<open>headers.get(key)\<close> is \<^verbatim>\<open>None\<close> for an absent
  header, and the f-string renders \<^verbatim>\<open>None\<close> as the text \<^verbatim>\<open>None\<close>.
\<close>

record request =
  headers :: "string \<rightharpoonup> string"

definition format_optional :: "string option \<Rightarrow> string" where
  "format_optional x = (case x of None \<Rightarrow> ''None'' | Some s \<Rightarrow> s)"

definition return_my_thread_id :: "request \<Rightarrow> exn + string" where
  "return_my_thread_id request =
     (let thread_id = headers request ''X-INVOKED_FOR_THREAD_ID''
      in Inr (''Thread id = '' @ format_optional thread_id))"

section \<open>The file resolver\<close>

text \<open>
  \<^verbatim>\<open>_access_file(filename)\<close> returns the original basename and the path to read.
  Fetching the attachment and renaming the staged copy are inside \<^verbatim>\<open>try\<close>; on any
  exception the handler prints a line and the caller's string itself is the path.
  \<^verbatim>\<open>Path.rename\<close> returns the target path.
\<close>

definition fallback_msg :: "exn \<Rightarrow> string" where
  "fallback_msg err = ''Error getting file from chat - using filename as is: '' @ str_exn err"

definition access_file ::
  "('v, 'f) env \<Rightarrow> ('v, 'f) world \<Rightarrow> string \<Rightarrow> string \<times> string \<times> ('v, 'f) world" where
  "access_file env w filename =
     (let orig_basename = path_name env filename in
      case get_file env orig_basename (files w) of
        Inl err \<Rightarrow> (orig_basename, filename, w\<lparr>stdout := stdout w @ [fallback_msg err]\<rparr>)
      | Inr (temp_file, fs1) \<Rightarrow>
          (let temp_file_dir = path_parent env temp_file;
               new_temp_file_name = path_stem env temp_file @ path_suffix env filename;
               new_temp_file_path = path_join env temp_file_dir new_temp_file_name
           in case rename env temp_file new_temp_file_path fs1 of
                Inl err \<Rightarrow>
                  (orig_basename, filename,
                   w\<lparr>files := fs1, stdout := stdout w @ [fallback_msg err]\<rparr>)
              | Inr fs2 \<Rightarrow> (orig_basename, new_temp_file_path, w\<lparr>files := fs2\<rparr>)))"

section \<open>The SQL statements of the source\<close>

text \<open>
  The source builds its statements by splicing Python strings into SQL text: the path
  between single quotes, a column name between double quotes. While the spliced string
  holds no quote of the kind that encloses it, the text is the statement the source
  means, and it is read over the store by its SQL meaning. Otherwise the literal or
  the identifier ends early and the rest of the string is SQL of its own: what the
  text does is then the engine's answer to that text.
\<close>

definition quote :: string where
  "quote = [CHR 0x27]"

definition dquote :: string where
  "dquote = [CHR 0x22]"

definition create_text :: "string \<Rightarrow> string \<Rightarrow> string" where
  "create_text table_name filename =
     ''CREATE TABLE IF NOT EXISTS '' @ table_name @ '' AS SELECT * FROM read_csv_auto(''
       @ quote @ filename @ quote @ '')''"

definition distinct_values_text :: "string \<Rightarrow> string \<Rightarrow> string" where
  "distinct_values_text col_name table_name =
     ''SELECT COUNT(DISTINCT '' @ dquote @ col_name @ dquote @ '') FROM '' @ table_name"

definition values_text :: "string \<Rightarrow> string \<Rightarrow> string" where
  "values_text col_name table_name =
     ''SELECT DISTINCT '' @ dquote @ col_name @ dquote @ '' FROM '' @ table_name
       @ '' ORDER BY '' @ dquote @ col_name @ dquote"

definition catalog_error :: "string \<Rightarrow> exn" where
  "catalog_error table_name =
     Exception (''Catalog Error: Table with name '' @ table_name @ '' does not exist!'')"

definition binder_error :: "string \<Rightarrow> exn" where
  "binder_error col_name =
     Exception (''Binder Error: Referenced column '' @ col_name @ '' not found in FROM clause!'')"

text \<open>
  Python on a fetched result: \<^verbatim>\<open>fetchone()\<close> is \<^verbatim>\<open>None\<close> for an empty result, \<^verbatim>\<open>row[0]\<close>
  needs a first value, and \<^verbatim>\<open>None < 10\<close> raises.
\<close>

definition none_not_subscriptable :: exn where
  "none_not_subscriptable =
     Exception (quote @ ''NoneType'' @ quote @ '' object is not subscriptable'')"

definition tuple_index_error :: exn where
  "tuple_index_error = Exception ''tuple index out of range''"

definition none_not_comparable :: exn where
  "none_not_comparable =
     Exception (quote @ ''<'' @ quote @ '' not supported between instances of ''
       @ quote @ ''NoneType'' @ quote @ '' and '' @ quote @ ''int'' @ quote)"

definition first_cell :: "'v row \<Rightarrow> exn + 'v cell" where
  "first_cell row = (case row of [] \<Rightarrow> Inl tuple_index_error | c # cs \<Rightarrow> Inr c)"

fun first_cells :: "'v row list \<Rightarrow> exn + 'v cell list" where
  "first_cells [] = Inr []"
| "first_cells (row # rs) =
     (case first_cell row of
        Inl e \<Rightarrow> Inl e
      | Inr c \<Rightarrow> (case first_cells rs of Inl e \<Rightarrow> Inl e | Inr cs \<Rightarrow> Inr (c # cs)))"

text \<open>
  The catalog views: \<^verbatim>\<open>information_schema.tables\<close> has a row (schema, name, type) for
  every table of every schema, \<^verbatim>\<open>information_schema.columns\<close> a row (schema, table,
  column, ordinal position, data type) for every column of every table.
\<close>

definition information_schema_tables :: "'v database \<Rightarrow> (string \<times> string \<times> string) list" where
  "information_schema_tables db = map (\<lambda>e. (fst (fst e), snd (fst e), table_type (snd e))) db"

definition information_schema_columns ::
  "'v database \<Rightarrow> (string \<times> string \<times> string \<times> nat \<times> string) list" where
  "information_schema_columns db =
     concat (map (\<lambda>e. map (\<lambda>(i, c). (fst (fst e), snd (fst e), fst c, Suc i, snd c))
                          (enumerate 0 (columns (snd e)))) db)"

text \<open>
  The table that an unqualified name in a statement denotes: the one of schema
  \<^verbatim>\<open>main\<close> with that name, up to case.
\<close>

definition resolve_table :: "(string \<Rightarrow> string) \<Rightarrow> 'v database \<Rightarrow> string \<Rightarrow> 'v table option" where
  "resolve_table norm db name =
     map_option snd
       (find (\<lambda>e. fst (fst e) = ''main'' \<and> norm (snd (fst e)) = norm name) db)"

text \<open>
  \<^verbatim>\<open>CREATE TABLE IF NOT EXISTS t AS SELECT * FROM read_csv_auto('path')\<close>, line 34.
  The engine parses and binds the text first (an unreadable path raises here). For a
  path without a single quote it then leaves an existing table \<open>t\<close> as it is, and
  otherwise scans the file into the new table. A path with a single quote closes the
  literal: the text is what the engine makes of it.
\<close>

definition create_table_if_not_exists ::
  "('v, 'f) env \<Rightarrow> 'f \<Rightarrow> 'v database \<Rightarrow> string \<Rightarrow> string \<Rightarrow> exn option \<times> 'f \<times> 'v database" where
  "create_table_if_not_exists env fs db table_name path =
     (case bind_csv env fs path of
        Some e \<Rightarrow> (Some e, fs, db)
      | None \<Rightarrow>
          if CHR 0x27 \<in> set path then
            (case execute env (create_text table_name path) fs db of
               (r, fs1, db1) \<Rightarrow> ((case r of Inl e \<Rightarrow> Some e | Inr res \<Rightarrow> None), fs1, db1))
          else
            (case resolve_table (ident_fold env) db table_name of
               Some t \<Rightarrow> (None, fs, db)
             | None \<Rightarrow>
                 (case scan_csv env fs path of
                    Inl e \<Rightarrow> (Some e, fs, db)
                  | Inr t \<Rightarrow>
                      (None, fs,
                       db @ [((''main'', table_name), t\<lparr>table_type := ''BASE TABLE''\<rparr>)]))))"

text \<open>\<^verbatim>\<open>SELECT COUNT(*) FROM t\<close>.\<close>

definition count_rows :: "('v, 'f) env \<Rightarrow> 'v database \<Rightarrow> string \<Rightarrow> exn + nat" where
  "count_rows env db table_name =
     (case resolve_table (ident_fold env) db table_name of
        None \<Rightarrow> Inl (catalog_error table_name)
      | Some t \<Rightarrow> Inr (length (rows t)))"

text \<open>
  \<^verbatim>\<open>SELECT column_name, data_type FROM information_schema.columns
  WHERE table_name = 't' ORDER BY ordinal_position\<close>, lines 44-49: the filter is on the
  name alone, so the columns of every table of that exact name are listed, whatever
  the schema.
\<close>

definition schema_query :: "'v database \<Rightarrow> string \<Rightarrow> (string \<times> string) list" where
  "schema_query db table_name =
     map (\<lambda>(s, n, c, i, ty). (c, ty))
       (sort_key (\<lambda>(s, n, c, i, ty). i)
          (filter (\<lambda>(s, n, c, i, ty). n = table_name) (information_schema_columns db)))"

text \<open>
  The position of the column that an identifier names, and the cells of that column,
  one per row (a row is as long as the column list).
\<close>

fun column_index :: "(string \<Rightarrow> string) \<Rightarrow> string \<Rightarrow> (string \<times> string) list \<Rightarrow> nat option" where
  "column_index norm n [] = None"
| "column_index norm n (c # cols) =
     (if norm (fst c) = norm n then Some 0 else map_option Suc (column_index norm n cols))"

definition cell :: "'v row \<Rightarrow> nat \<Rightarrow> 'v cell" where
  "cell r i = (case drop i r of [] \<Rightarrow> None | c # cs \<Rightarrow> c)"

definition column_cells :: "(string \<Rightarrow> string) \<Rightarrow> 'v table \<Rightarrow> string \<Rightarrow> 'v cell list option" where
  "column_cells norm t col_name =
     map_option (\<lambda>i. map (\<lambda>r. cell r i) (rows t)) (column_index norm col_name (columns t))"

definition select_column ::
  "('v, 'f) env \<Rightarrow> 'v database \<Rightarrow> string \<Rightarrow> string \<Rightarrow> exn + 'v cell list" where
  "select_column env db table_name col_name =
     (case resolve_table (ident_fold env) db table_name of
        None \<Rightarrow> Inl (catalog_error table_name)
      | Some t \<Rightarrow>
          (case column_cells (ident_fold env) t col_name of
             None \<Rightarrow> Inl (binder_error col_name)
           | Some cs \<Rightarrow> Inr cs))"

fun non_null :: "'v cell list \<Rightarrow> 'v list" where
  "non_null [] = []"
| "non_null (None # cs) = non_null cs"
| "non_null (Some v # cs) = v # non_null cs"

text \<open>
  \<^verbatim>\<open>COUNT(DISTINCT c)\<close> counts the values that are not \<^verbatim>\<open>NULL\<close>, those the engine holds
  equal counted once. \<^verbatim>\<open>SELECT DISTINCT c ... ORDER BY c\<close> gives one value for each of
  them (here the first in storage order), ascending, and \<^verbatim>\<open>NULL\<close> (one row for all of
  them) last, the engine's default.
\<close>

fun distinct_reps :: "('v \<Rightarrow> 'v) \<Rightarrow> 'v list \<Rightarrow> 'v list \<Rightarrow> 'v list" where
  "distinct_reps key seen [] = []"
| "distinct_reps key seen (v # vs) =
     (if key v \<in> set seen then distinct_reps key seen vs
      else v # distinct_reps key (key v # seen) vs)"

definition count_distinct :: "('v \<Rightarrow> 'v) \<Rightarrow> 'v cell list \<Rightarrow> nat" where
  "count_distinct key cs = length (remdups (map key (non_null cs)))"

definition select_distinct_ordered :: "('v::linorder \<Rightarrow> 'v) \<Rightarrow> 'v cell list \<Rightarrow> 'v cell list" where
  "select_distinct_ordered key cs =
     map Some (sort_key key (distinct_reps key [] (non_null cs)))
       @ (if None \<in> set cs then [None] else [])"

text \<open>
  Lines 60-63: \<^verbatim>\<open>SELECT COUNT(DISTINCT "col") FROM t\<close>, \<^verbatim>\<open>fetchone()[0]\<close> and the test
  \<^verbatim>\<open>distinct_count < 10\<close>. The outcome is the value of the test.
\<close>

definition distinct_values_query ::
  "('v, 'f) env \<Rightarrow> 'f \<Rightarrow> 'v database \<Rightarrow> string \<Rightarrow> string \<Rightarrow> (exn + bool) \<times> 'f \<times> 'v database" where
  "distinct_values_query env fs db table_name col_name =
     (if CHR 0x22 \<in> set col_name then
        (case execute env (distinct_values_text col_name table_name) fs db of
           (r, fs1, db1) \<Rightarrow>
             ((case r of
                 Inl e \<Rightarrow> Inl e
               | Inr res \<Rightarrow>
                   (case fetched res of
                      [] \<Rightarrow> Inl none_not_subscriptable
                    | row # rs \<Rightarrow>
                        (case first_cell row of
                           Inl e \<Rightarrow> Inl e
                         | Inr None \<Rightarrow> Inl none_not_comparable
                         | Inr (Some distinct_count) \<Rightarrow> less_than_10 env distinct_count))),
              fs1, db1))
      else
        ((case select_column env db table_name col_name of
            Inl e \<Rightarrow> Inl e
          | Inr cs \<Rightarrow> Inr (count_distinct (sql_key env) cs < 10)),
         fs, db))"

text \<open>
  Lines 65-69: \<^verbatim>\<open>SELECT DISTINCT "col" FROM t ORDER BY "col"\<close>, \<^verbatim>\<open>fetchall()\<close> and
  \<^verbatim>\<open>val[0]\<close> of every row.
\<close>

definition values_query ::
  "('v::linorder, 'f) env \<Rightarrow> 'f \<Rightarrow> 'v database \<Rightarrow> string \<Rightarrow> string
     \<Rightarrow> (exn + 'v cell list) \<times> 'f \<times> 'v database" where
  "values_query env fs db table_name col_name =
     (if CHR 0x22 \<in> set col_name then
        (case execute env (values_text col_name table_name) fs db of
           (r, fs1, db1) \<Rightarrow>
             ((case r of Inl e \<Rightarrow> Inl e | Inr res \<Rightarrow> first_cells (fetched res)), fs1, db1))
      else
        ((case select_column env db table_name col_name of
            Inl e \<Rightarrow> Inl e
          | Inr cs \<Rightarrow> Inr (select_distinct_ordered (sql_key env) cs)),
         fs, db))"

text \<open>\<^verbatim>\<open>SELECT * FROM t LIMIT 5\<close>.\<close>

definition sample_query :: "('v, 'f) env \<Rightarrow> 'v database \<Rightarrow> string \<Rightarrow> exn + 'v row list" where
  "sample_query env db table_name =
     (case resolve_table (ident_fold env) db table_name of
        None \<Rightarrow> Inl (catalog_error table_name)
      | Some t \<Rightarrow> Inr (take 5 (rows t)))"

text \<open>
  \<^verbatim>\<open>SELECT table_name, table_type FROM information_schema.tables
  WHERE table_schema = 'main' ORDER BY table_name\<close>, lines 110-115.
\<close>

definition tables_query :: "'v database \<Rightarrow> (string \<times> string) list" where
  "tables_query db =
     sort_key fst
       (map (\<lambda>(s, n, ty). (n, ty))
          (filter (\<lambda>(s, n, ty). s = ''main'') (information_schema_tables db)))"

section \<open>load\_data\<close>

definition load_msg :: "nat \<Rightarrow> string \<Rightarrow> string \<Rightarrow> string" where
  "load_msg row_count orig_filename table_name =
     ''Successfully loaded '' @ str_nat row_count @ '' rows from '' @ orig_filename
       @ '' into table '' @ quote @ table_name @ quote @ '' in DuckDB database at '' @ DB_PATH
       @ ''.'' @ nl @ nl"

text \<open>
  The loop over the columns, \<^verbatim>\<open>schema_info\<close> being the text built so far. A failing
  statement raises out of \<^verbatim>\<open>load_data\<close>, which has no handler.
\<close>

fun schema_loop ::
  "('v::linorder, 'f) env \<Rightarrow> 'f \<Rightarrow> 'v database \<Rightarrow> string \<Rightarrow> (string \<times> string) list \<Rightarrow> string
     \<Rightarrow> (exn + string) \<times> 'f \<times> 'v database" where
  "schema_loop env fs db table_name [] schema_info = (Inr schema_info, fs, db)"
| "schema_loop env fs db table_name ((col_name, data_type) # cols) schema_info =
     (let schema_info1 = schema_info @ ''Column: '' @ col_name @ '', Type: '' @ data_type in
      case distinct_values_query env fs db table_name col_name of
        (Inl e, fs1, db1) \<Rightarrow> (Inl e, fs1, db1)
      | (Inr below_10, fs1, db1) \<Rightarrow>
          if below_10 then
            (case values_query env fs1 db1 table_name col_name of
               (Inl e, fs2, db2) \<Rightarrow> (Inl e, fs2, db2)
             | (Inr vals, fs2, db2) \<Rightarrow>
                 (let values_list = map (py_str env) vals in
                  schema_loop env fs2 db2 table_name cols
                    (schema_info1 @ '', Possible values: '' @ join '', '' values_list @ nl)))
          else schema_loop env fs1 db1 table_name cols (schema_info1 @ nl))"

text \<open>
  The loop that adds one line per fetched row, all values stringified; \<^verbatim>\<open>load_data\<close>
  and \<^verbatim>\<open>query\<close> both have it.
\<close>

definition add_rows :: "('v, 'f) env \<Rightarrow> string \<Rightarrow> 'v row list \<Rightarrow> string" where
  "add_rows env out rs =
     foldl (\<lambda>out row. out @ join '' | '' (map (py_str env) row) @ nl) out rs"

definition sample_info :: "('v, 'f) env \<Rightarrow> string list \<Rightarrow> 'v row list \<Rightarrow> string" where
  "sample_info env column_names sample_rows =
     add_rows env
       (nl @ ''Sample Data (5 rows):'' @ nl @ replicate 50 (CHR ''='') @ nl
          @ join '' | '' column_names @ nl @ replicate 50 (CHR ''-'') @ nl)
       sample_rows"

text \<open>
  Lines 24-35 of \<^verbatim>\<open>load_data\<close>: resolve the file, connect, create the table. The
  outcome is the display name with the files and the store that the statement left.
\<close>

definition load_table ::
  "('v, 'f) env \<Rightarrow> ('v, 'f) world \<Rightarrow> string
     \<Rightarrow> (exn + (string \<times> 'f \<times> 'v database)) \<times> ('v, 'f) world" where
  "load_table env w filename =
     (case access_file env w filename of
        (orig_filename, path, w1) \<Rightarrow>
          (case connect w1 of
             Inl e \<Rightarrow> (Inl e, w1)
           | Inr (db, w2) \<Rightarrow>
               (let table_name = ''customers'' in
                case create_table_if_not_exists env (files w2) db table_name path of
                  (r, fs1, db1) \<Rightarrow>
                    ((case r of Some e \<Rightarrow> Inl e | None \<Rightarrow> Inr (orig_filename, fs1, db1)),
                     w2\<lparr>store := Some db1, files := fs1\<rparr>))))"

text \<open>
  Lines 37-90: the statements after the table's creation, which build the report.
\<close>

definition load_report ::
  "('v::linorder, 'f) env \<Rightarrow> 'f \<Rightarrow> 'v database \<Rightarrow> string \<Rightarrow> string
     \<Rightarrow> (exn + string) \<times> 'f \<times> 'v database" where
  "load_report env fs db table_name orig_filename =
     (case count_rows env db table_name of
        Inl e \<Rightarrow> (Inl e, fs, db)
      | Inr row_count \<Rightarrow>
          (let cols = schema_query db table_name in
           case schema_loop env fs db table_name cols
                  (''Schema Information:'' @ nl @ replicate 50 (CHR ''='') @ nl) of
             (Inl e, fs1, db1) \<Rightarrow> (Inl e, fs1, db1)
           | (Inr schema_info, fs1, db1) \<Rightarrow>
               (case sample_query env db1 table_name of
                  Inl e \<Rightarrow> (Inl e, fs1, db1)
                | Inr sample_rows \<Rightarrow>
                    (let column_names = map fst cols in
                     (Inr (load_msg row_count orig_filename table_name @ schema_info
                             @ sample_info env column_names sample_rows),
                      fs1, db1)))))"

definition load_data ::
  "('v::linorder, 'f) env \<Rightarrow> ('v, 'f) world \<Rightarrow> string \<Rightarrow> (exn + string) \<times> ('v, 'f) world" where
  "load_data env w filename =
     (case load_table env w filename of
        (Inl e, w1) \<Rightarrow> (Inl e, w1)
      | (Inr (orig_filename, fs, db), w1) \<Rightarrow>
          (case load_report env fs db ''customers'' orig_filename of
             (r, fs1, db1) \<Rightarrow> (r, w1\<lparr>store := Some db1, files := fs1\<rparr>)))"

text \<open>
  What a line of the schema section says of a column of the table \<^verbatim>\<open>t\<close>: the name and
  the type and, when the column has fewer than 10 distinct values that are not NULL,
  one representative \<^verbatim>\<open>vs\<close> of each, in strictly ascending order of the engine's
  comparison, followed by \<^verbatim>\<open>None\<close> when the column holds a NULL.
\<close>

abbreviation is_schema_line ::
  "('v::linorder, 'f) env \<Rightarrow> 'v table \<Rightarrow> string \<times> string \<Rightarrow> string \<Rightarrow> bool" where
  "is_schema_line env t \<equiv>
     \<lambda>(col_name, data_type) line.
       \<exists>cs vs. column_cells (ident_fold env) t col_name = Some cs \<and>
         sorted_wrt (<) (map (sql_key env) vs) \<and>
         sql_key env ` set vs = sql_key env ` set (non_null cs) \<and>
         set vs \<subseteq> set (non_null cs) \<and>
         length vs = count_distinct (sql_key env) cs \<and>
         line = ''Column: '' @ col_name @ '', Type: '' @ data_type @
           (if count_distinct (sql_key env) cs < 10
            then '', Possible values: '' @
                 join '', '' (map (py_str env)
                   (map Some vs @ (if None \<in> set cs then [None] else [])))
            else []) @ nl"

section \<open>query\<close>

definition query_error_msg :: "exn \<Rightarrow> string" where
  "query_error_msg e = ''Error executing query: '' @ str_exn e"

text \<open>Iterating \<^verbatim>\<open>con.description\<close> when it is \<^verbatim>\<open>None\<close>.\<close>

definition none_not_iterable :: exn where
  "none_not_iterable = Exception (quote @ ''NoneType'' @ quote @ '' object is not iterable'')"

definition tables_output :: "(string \<times> string) list \<Rightarrow> string" where
  "tables_output result =
     (let output = ''Database Tables:'' @ nl @ replicate 50 (CHR ''='') @ nl in
      if result \<noteq> [] then
        foldl (\<lambda>output row. output @ fst row @ '' | '' @ snd row @ nl)
          (output @ ''TABLE_NAME | TABLE_TYPE'' @ nl @ replicate 50 (CHR ''-'') @ nl) result
      else output @ ''No tables found in the database.'' @ nl)"

definition results_output ::
  "('v, 'f) env \<Rightarrow> string \<Rightarrow> 'v row list \<Rightarrow> string list \<Rightarrow> string" where
  "results_output env sql_query result column_names =
     (let output = ''Query Results:'' @ nl @ replicate 50 (CHR ''='') @ nl
            @ ''Executed query: '' @ sql_query @ nl @ nl
            @ ''Returned '' @ str_nat (length result) @ '' rows'' @ nl @ nl in
      if result \<noteq> [] then
        add_rows env (output @ join '' | '' column_names @ nl @ replicate 50 (CHR ''-'') @ nl)
          result
      else output @ ''No rows returned.'' @ nl)"

text \<open>
  The connection is opened before \<^verbatim>\<open>try\<close>; everything after it is inside. A
  statement that fails may still have changed the store (a text of several statements).
\<close>

definition query ::
  "('v, 'f) env \<Rightarrow> ('v, 'f) world \<Rightarrow> string \<Rightarrow> (exn + string) \<times> ('v, 'f) world" where
  "query env w sql_query =
     (case connect w of
        Inl e \<Rightarrow> (Inl e, w)
      | Inr (db, w1) \<Rightarrow>
          if strip sql_query = [] then (Inr (tables_output (tables_query db)), w1)
          else
            (case execute env sql_query (files w1) db of
               (r, fs1, db1) \<Rightarrow>
                 (let w2 = w1\<lparr>store := Some db1, files := fs1\<rparr> in
                  case r of
                    Inl e \<Rightarrow> (Inr (query_error_msg e), w2)
                  | Inr res \<Rightarrow>
                      (case description res of
                         None \<Rightarrow> (Inr (query_error_msg none_not_iterable), w2)
                       | Some column_names \<Rightarrow>
                           (Inr (results_output env sql_query (fetched res) column_names),
                            w2)))))"

section \<open>An example host\<close>

text \<open>
  A host on which the model runs: integer values, identifiers folded to lower case,
  files given as the readable CSV paths with their parsed content, an attachment
  service that holds no file, a plain reading of POSIX paths, and an engine that knows
  a few statements of the caller.
\<close>

type_synonym csv_files = "(string \<times> int table) list"

definition lower_char :: "char \<Rightarrow> char" where
  "lower_char c =
     (case map_of (zip ''ABCDEFGHIJKLMNOPQRSTUVWXYZ'' ''abcdefghijklmnopqrstuvwxyz'') c of
        None \<Rightarrow> c
      | Some l \<Rightarrow> l)"

definition no_file :: "string \<Rightarrow> exn" where
  "no_file path = Exception (''IO Error: No files found that match the pattern '' @ path)"

text \<open>
  A filename that closes the literal of line 34 and adds a statement, and the text
  that line 34 builds from it:
  \<^verbatim>\<open>CREATE TABLE IF NOT EXISTS customers AS SELECT * FROM read_csv_auto('report.csv');
  INSERT INTO customers SELECT * FROM read_csv_auto('report.csv')\<close>.
\<close>

definition injected_filename :: string where
  "injected_filename =
     ''report.csv'' @ quote @ ''); INSERT INTO customers SELECT * FROM read_csv_auto(''
       @ quote @ ''report.csv''"

definition example_create_and_insert ::
  "csv_files \<Rightarrow> int database \<Rightarrow> (exn + int exec_result) \<times> csv_files \<times> int database" where
  "example_create_and_insert fs db =
     (case map_of fs ''report.csv'' of
        None \<Rightarrow> (Inl (no_file ''report.csv''), fs, db)
      | Some t \<Rightarrow>
          (let db1 = (case resolve_table (map lower_char) db ''customers'' of
                        Some t0 \<Rightarrow> db
                      | None \<Rightarrow> db @ [((''main'', ''customers''), t\<lparr>table_type := ''BASE TABLE''\<rparr>)])
           in (Inr \<lparr> fetched = [[Some (int (length (rows t)))]], description = Some [''Count''] \<rparr>,
               fs,
               map (\<lambda>e. if fst (fst e) = ''main''
                              \<and> map lower_char (snd (fst e)) = ''customers''
                         then (fst e, (snd e)\<lparr>rows := rows (snd e) @ rows t\<rparr>) else e) db1)))"

text \<open>
  A column name that closes the identifier of line 60, and the text that line 60
  builds from it, the rest being a comment:
  \<^verbatim>\<open>SELECT COUNT(DISTINCT "a") FROM customers --") FROM customers\<close>.
\<close>

definition injected_column :: string where
  "injected_column = ''a'' @ dquote @ '') FROM customers --''"

definition example_count_a ::
  "csv_files \<Rightarrow> int database \<Rightarrow> (exn + int exec_result) \<times> csv_files \<times> int database" where
  "example_count_a fs db =
     (case resolve_table (map lower_char) db ''customers'' of
        None \<Rightarrow> (Inl (catalog_error ''customers''), fs, db)
      | Some t \<Rightarrow>
          (case column_cells (map lower_char) t ''a'' of
             None \<Rightarrow> (Inl (binder_error ''a''), fs, db)
           | Some cs \<Rightarrow>
               (Inr \<lparr> fetched = [[Some (int (count_distinct id cs))]],
                      description = Some [''count(DISTINCT a)''] \<rparr>, fs, db)))"

definition example_env :: "(int, csv_files) env" where
  "example_env =
     \<lparr> str_value = str_int,
       less_than_10 = (\<lambda>i. Inr (i < 10)),
       sql_key = id,
       ident_fold = map lower_char,
       path_name = (\<lambda>p. rev (takeWhile (\<lambda>c. c \<noteq> CHR ''/'') (rev p))),
       path_stem = (\<lambda>p. takeWhile (\<lambda>c. c \<noteq> CHR ''.'')
                          (rev (takeWhile (\<lambda>c. c \<noteq> CHR ''/'') (rev p)))),
       path_suffix = (\<lambda>p. dropWhile (\<lambda>c. c \<noteq> CHR ''.'')
                          (rev (takeWhile (\<lambda>c. c \<noteq> CHR ''/'') (rev p)))),
       path_parent = (\<lambda>p. rev (drop 1 (dropWhile (\<lambda>c. c \<noteq> CHR ''/'') (rev p)))),
       path_join = (\<lambda>d n. d @ ''/'' @ n),
       get_file = (\<lambda>name fs. Inl (Exception (''File not found: '' @ name))),
       rename = (\<lambda>src dst fs. Inr fs),
       bind_csv = (\<lambda>fs path.
                    if path = injected_filename
                    then (case map_of fs ''report.csv'' of
                            None \<Rightarrow> Some (no_file ''report.csv'') | Some t \<Rightarrow> None)
                    else (case map_of fs path of None \<Rightarrow> Some (no_file path) | Some t \<Rightarrow> None)),
       scan_csv = (\<lambda>fs path. case map_of fs path of
                      None \<Rightarrow> Inl (no_file path)
                    | Some t \<Rightarrow> Inr t),
       execute = (\<lambda>sql fs db.
                    if sql = ''SELECT 42 AS answer''
                    then (Inr \<lparr> fetched = [[Some 42]], description = Some [''answer''] \<rparr>, fs, db)
                    else if sql = create_text ''customers'' injected_filename
                    then example_create_and_insert fs db
                    else if sql = distinct_values_text injected_column ''customers''
                    then example_count_a fs db
                    else (Inl (Exception (''Parser Error: syntax error in '' @ sql)), fs, db)) \<rparr>"

definition example_table :: "int table" where
  "example_table =
     \<lparr> table_type = ''BASE TABLE'',
       columns = [(''id'', ''BIGINT''), (''grade'', ''BIGINT'')],
       rows = [[Some 1, Some 30], [Some 2, Some 10], [Some 3, Some 40], [Some 4, Some 10],
               [Some 5, Some 50], [Some 6, Some 90], [Some 7, Some 20], [Some 8, Some 60],
               [Some 9, Some 80], [Some 10, Some 70], [Some 10, None]] \<rparr>"

definition example_world :: "(int, csv_files) world" where
  "example_world =
     \<lparr> store = None, files = [(''report.csv'', example_table)], stdout = [],
       connect_failure = None, remove_failure = None \<rparr>"

definition unopenable_world :: "(int, csv_files) world" where
  "unopenable_world =
     example_world\<lparr>connect_failure :=
       Some (Exception ''IO Error: Cannot open file data/customer_data.duckdb'')\<rparr>"

definition example_store :: "int database" where
  "example_store =
     [((''main'', ''orders_view''),
       \<lparr> table_type = ''VIEW'', columns = [(''id'', ''BIGINT'')], rows = [] \<rparr>),
      ((''main'', ''customers''), example_table)]"

definition loaded_world :: "(int, csv_files) world" where
  "loaded_world = example_world\<lparr>store := Some example_store\<rparr>"

text \<open>A store with a table in a second schema.\<close>

definition hidden_store :: "int database" where
  "hidden_store =
     [((''main'', ''customers''), example_table),
      ((''s2'', ''hidden''),
       \<lparr> table_type = ''BASE TABLE'', columns = [(''x'', ''INTEGER'')], rows = [[Some 1]] \<rparr>)]"

definition hidden_world :: "(int, csv_files) world" where
  "hidden_world = example_world\<lparr>store := Some hidden_store\<rparr>"

text \<open>A store with a second table named \<^verbatim>\<open>customers\<close>, in the schema \<^verbatim>\<open>s\<close>.\<close>

definition two_schema_store :: "int database" where
  "two_schema_store =
     [((''s'', ''customers''),
       \<lparr> table_type = ''BASE TABLE'', columns = [(''id'', ''INTEGER'')], rows = [[Some 7]] \<rparr>),
      ((''main'', ''customers''), example_table)]"

definition two_schema_world :: "(int, csv_files) world" where
  "two_schema_world = example_world\<lparr>store := Some two_schema_store\<rparr>"



section \<open>Properties of cleanup\<close>

lemma cleanup_result:
  "fst (cleanup w) =
     Inr (case connect_failure w of
            Some e \<Rightarrow> remove_error_msg e
          | None \<Rightarrow> (case remove_failure w of
                       Some e \<Rightarrow> remove_error_msg e
                     | None \<Rightarrow> removed_msg))"
  by (simp add: cleanup_def connect_def path_exists_def os_remove_def Let_def
           split: option.splits)

text \<open>
  The did-not-exist message is never the answer: once the connection has been opened
  the file is there.
\<close>

lemma cleanup_never_reports_missing: "fst (cleanup w) \<noteq> Inr not_exist_msg"
  by (simp add: cleanup_result removed_msg_def not_exist_msg_def remove_error_msg_def DB_PATH_def
        split: option.splits)

text \<open>
  C8. \<^verbatim>\<open>cleanup()\<close> never raises: on every host its outcome is a response, and the
  text is the deleted message, the did-not-exist message, or the report of the error
  that opening the store or removing the file raised.
\<close>

theorem cleanup_never_raises:
  "fst (cleanup w) = Inr removed_msg \<or> fst (cleanup w) = Inr not_exist_msg \<or>
   (\<exists>e. (connect_failure w = Some e \<or> remove_failure w = Some e) \<and>
        fst (cleanup w) = Inr (remove_error_msg e))"
  by (cases "connect_failure w"; cases "remove_failure w") (auto simp: cleanup_result)

text \<open>
  C3. Two \<^verbatim>\<open>cleanup()\<close> calls in a row on a host without a store file: the claim has
  both report that the file does not exist. Opening the connection creates the file
  before the existence test, so each call finds a file, removes it and reports the
  removal.
\<close>

theorem cleanup_twice_removed:
  "store example_world = None \<and>
   fst (cleanup example_world) = Inr removed_msg \<and>
   fst (cleanup (snd (cleanup example_world))) = Inr removed_msg \<and>
   removed_msg \<noteq> not_exist_msg"
  by (simp add: example_world_def cleanup_def connect_def path_exists_def os_remove_def
        removed_msg_def not_exist_msg_def)

section \<open>Properties of return\_my\_thread\_id\<close>

text \<open>
  C10. \<^verbatim>\<open>return_my_thread_id\<close> returns a response for every request, and for a request
  without the header \<^verbatim>\<open>X-INVOKED_FOR_THREAD_ID\<close> the text is \<^verbatim>\<open>Thread id = None\<close>.
\<close>

theorem thread_id_never_fails:
  "(\<exists>text. return_my_thread_id request = Inr text) \<and>
   (headers request ''X-INVOKED_FOR_THREAD_ID'' = None \<longrightarrow>
      return_my_thread_id request = Inr ''Thread id = None'')"
  by (simp add: return_my_thread_id_def format_optional_def)

theorem thread_id_never_fails_witness:
  "headers \<lparr>headers = Map.empty\<rparr> ''X-INVOKED_FOR_THREAD_ID'' = None \<and>
   return_my_thread_id \<lparr>headers = Map.empty\<rparr> = Inr ''Thread id = None''"
  using thread_id_never_fails [of "\<lparr>headers = Map.empty\<rparr>"] by simp

section \<open>Properties of query\<close>

lemma all_dropWhile: "(\<forall>x\<in>set (dropWhile P xs). P x) \<longleftrightarrow> (\<forall>x\<in>set xs. P x)"
  by (induction xs) auto

lemma strip_empty_iff: "strip s = [] \<longleftrightarrow> (\<forall>c\<in>set s. isspace c)"
  by (simp add: strip_def all_dropWhile)

text \<open>
  C9. A query text of whitespace only behaves as the empty text: \<^verbatim>\<open>query\<close> does on it
  exactly what it does on \<^verbatim>\<open>""\<close>, and once the store is open it answers with the table
  listing and executes nothing.
\<close>

theorem blank_query_lists_tables:
  assumes "\<forall>c\<in>set sql_query. isspace c"
  shows "query env w sql_query = query env w [] \<and>
         (\<forall>db w1. connect w = Inr (db, w1) \<longrightarrow>
            query env w sql_query = (Inr (tables_output (tables_query db)), w1))"
proof -
  have "strip sql_query = []" "strip [] = []"
    using assms by (simp_all add: strip_empty_iff)
  then show ?thesis
    by (cases "connect w") (auto simp: query_def)
qed

theorem blank_query_lists_tables_witness:
  "isspace (CHR '' '') \<and> isspace (CHR 0x09) \<and> isspace (CHR 0x0A) \<and>
   query example_env example_world [CHR '' '', CHR 0x09, CHR 0x0A] =
     query example_env example_world []"
  using blank_query_lists_tables [of "[CHR '' '', CHR 0x09, CHR 0x0A]" example_env example_world]
  by (simp add: isspace_def)

text \<open>
  Once the connection is open, \<^verbatim>\<open>query\<close> returns a response whatever the statement
  does; it raises exactly when the connection cannot be opened.
\<close>

lemma query_absorbs_errors:
  "connect_failure w = None \<Longrightarrow> \<exists>text. fst (query env w sql_query) = Inr text"
  by (simp add: query_def connect_def Let_def split: prod.splits sum.splits option.splits)

lemma query_raises_iff:
  "(\<exists>e. fst (query env w sql_query) = Inl e) \<longleftrightarrow> connect_failure w \<noteq> None"
  by (auto simp add: query_def connect_def Let_def split: prod.splits sum.splits option.splits)

text \<open>
  C2. \<^verbatim>\<open>query\<close> is claimed never to raise. On a host where the store cannot be opened,
  \<^verbatim>\<open>duckdb.connect\<close> raises before the \<^verbatim>\<open>try\<close> block is entered and the exception reaches
  the caller; \<^verbatim>\<open>cleanup\<close>, which connects inside its \<^verbatim>\<open>try\<close>, reports the same error as
  text.
\<close>

theorem query_raises_when_connect_fails:
  "fst (query example_env unopenable_world ''SELECT 42 AS answer'') =
     Inl (Exception ''IO Error: Cannot open file data/customer_data.duckdb'') \<and>
   fst (cleanup unopenable_world) =
     Inr (remove_error_msg (Exception ''IO Error: Cannot open file data/customer_data.duckdb''))"
  by (simp add: query_def cleanup_def connect_def unopenable_world_def example_world_def)

section \<open>Properties of the file resolver\<close>

text \<open>
  C5. When the attachment service raises, \<^verbatim>\<open>_access_file\<close> does not: it prints the
  fallback line and returns the basename together with the caller's string, unchanged,
  as the path to read. \<^verbatim>\<open>load_data\<close> then raises, at the read of that path, the
  error of the engine when the path is unreadable.
\<close>

theorem access_file_fallback:
  assumes "get_file env (path_name env filename) (files w) = Inl err"
  shows "access_file env w filename =
           (path_name env filename, filename, w\<lparr>stdout := stdout w @ [fallback_msg err]\<rparr>) \<and>
         (\<forall>e. connect_failure w = None \<longrightarrow> bind_csv env (files w) filename = Some e \<longrightarrow>
              fst (load_data env w filename) = Inl e)"
  using assms
  by (simp add: access_file_def load_data_def load_table_def connect_def
        create_table_if_not_exists_def Let_def)

theorem access_file_fallback_witness:
  "get_file example_env (path_name example_env ''docs/missing.csv'') (files example_world) =
     Inl (Exception ''File not found: missing.csv'') \<and>
   fst (access_file example_env example_world ''docs/missing.csv'') = ''missing.csv'' \<and>
   fst (snd (access_file example_env example_world ''docs/missing.csv'')) = ''docs/missing.csv'' \<and>
   fst (load_data example_env example_world ''docs/missing.csv'') =
     Inl (Exception ''IO Error: No files found that match the pattern docs/missing.csv'')"
  using access_file_fallback [of example_env "''docs/missing.csv''" example_world
          "Exception ''File not found: missing.csv''"]
  by (simp add: example_env_def example_world_def no_file_def injected_filename_def)

text \<open>A failing rename of the staged copy takes the same fallback.\<close>

lemma access_file_rename_fallback:
  assumes "get_file env (path_name env filename) (files w) = Inr (temp_file, fs1)"
    and "rename env temp_file
           (path_join env (path_parent env temp_file)
              (path_stem env temp_file @ path_suffix env filename)) fs1 = Inl err"
  shows "access_file env w filename =
           (path_name env filename, filename,
            w\<lparr>files := fs1, stdout := stdout w @ [fallback_msg err]\<rparr>)"
  using assms by (simp add: access_file_def Let_def)

section \<open>Properties of the table listing\<close>

lemma foldl_append_concat:
  "foldl (\<lambda>out x. out @ f x) acc xs = acc @ concat (map f xs)"
  by (induction xs arbitrary: acc) simp_all

lemma tables_output_layout:
  "tables_output r =
     ''Database Tables:'' @ nl @ replicate 50 (CHR ''='') @ nl @
     (if r = [] then ''No tables found in the database.'' @ nl
      else ''TABLE_NAME | TABLE_TYPE'' @ nl @ replicate 50 (CHR ''-'') @ nl @
           concat (map (\<lambda>row. fst row @ '' | '' @ snd row @ nl) r))"
  by (simp add: tables_output_def Let_def foldl_append_concat)

lemma sorted_tables_query: "sorted (map fst (tables_query db))"
  by (simp add: tables_query_def)

lemma mset_tables_query:
  "mset (tables_query db) =
     mset (map (\<lambda>(s, n, ty). (n, ty))
             (filter (\<lambda>(s, n, ty). s = ''main'') (information_schema_tables db)))"
  by (simp add: tables_query_def)

text \<open>
  C6, as claimed: the listing of \<^verbatim>\<open>query("")\<close> is that of \<^verbatim>\<open>information_schema.tables\<close>,
  sorted by name. The view has a row for every table of every schema, and line 113
  keeps those of the schema \<^verbatim>\<open>main\<close>: on a store that holds \<^verbatim>\<open>main.customers\<close> and
  \<^verbatim>\<open>s2.hidden\<close> the view lists both tables and \<^verbatim>\<open>query("")\<close> lists the first only.
\<close>

theorem listing_omits_other_schemas:
  "connect hidden_world = Inr (hidden_store, hidden_world) \<and>
   information_schema_tables hidden_store =
     [(''main'', ''customers'', ''BASE TABLE''), (''s2'', ''hidden'', ''BASE TABLE'')] \<and>
   fst (query example_env hidden_world []) =
     Inr (tables_output [(''customers'', ''BASE TABLE'')]) \<and>
   tables_output [(''customers'', ''BASE TABLE'')] \<noteq>
     tables_output [(''customers'', ''BASE TABLE''), (''hidden'', ''BASE TABLE'')]"
  by (simp add: connect_def hidden_world_def example_world_def hidden_store_def
        information_schema_tables_def example_table_def query_def strip_def tables_query_def
        tables_output_def Let_def)

text \<open>
  C6, amended. Once the store is open, \<^verbatim>\<open>query("")\<close> answers with the listing of the
  tables of the schema \<^verbatim>\<open>main\<close>: the rows (name, type) of \<^verbatim>\<open>information_schema.tables\<close>
  whose schema is \<^verbatim>\<open>main\<close>, each once, sorted by name, laid out under the two title
  lines as a header and one line for each table, or as the no-tables line.
\<close>

theorem query_empty_lists_tables:
  assumes "connect w = Inr (db, w1)"
  shows "query env w [] = (Inr (tables_output (tables_query db)), w1) \<and>
         sorted (map fst (tables_query db)) \<and>
         mset (tables_query db) =
           mset (map (\<lambda>(s, n, ty). (n, ty))
                   (filter (\<lambda>(s, n, ty). s = ''main'') (information_schema_tables db))) \<and>
         tables_output (tables_query db) =
           ''Database Tables:'' @ nl @ replicate 50 (CHR ''='') @ nl @
           (if tables_query db = [] then ''No tables found in the database.'' @ nl
            else ''TABLE_NAME | TABLE_TYPE'' @ nl @ replicate 50 (CHR ''-'') @ nl @
                 concat (map (\<lambda>row. fst row @ '' | '' @ snd row @ nl) (tables_query db)))"
proof -
  have "query env w [] = (Inr (tables_output (tables_query db)), w1)"
    using assms by (simp add: query_def strip_def)
  then show ?thesis
    by (simp only: sorted_tables_query mset_tables_query tables_output_layout simp_thms)
qed

text \<open>On a store with a view and a table in \<^verbatim>\<open>main\<close>, the listing has both, by name.\<close>

theorem query_empty_lists_tables_witness:
  "connect loaded_world = Inr (example_store, loaded_world) \<and>
   fst (query example_env loaded_world []) =
     Inr (''Database Tables:'' @ nl @ replicate 50 (CHR ''='') @ nl @
          ''TABLE_NAME | TABLE_TYPE'' @ nl @ replicate 50 (CHR ''-'') @ nl @
          ''customers | BASE TABLE'' @ nl @ ''orders_view | VIEW'' @ nl)"
proof -
  have c: "connect loaded_world = Inr (example_store, loaded_world)"
    by (simp add: connect_def loaded_world_def example_world_def)
  have "tables_query example_store = [(''customers'', ''BASE TABLE''), (''orders_view'', ''VIEW'')]"
    by (simp add: tables_query_def information_schema_tables_def example_store_def
          example_table_def)
  then show ?thesis
    using query_empty_lists_tables [OF c, of example_env] c
    by simp
qed

section \<open>Properties of load\_data\<close>

subsection \<open>The statements of the schema loop\<close>

lemma distinct_reps_keys:
  "set (map key (distinct_reps key seen vs)) = set (map key vs) - set seen"
  by (induction vs arbitrary: seen) auto

lemma distinct_reps_distinct: "distinct (map key (distinct_reps key seen vs))"
proof (induction vs arbitrary: seen)
  case Nil
  then show ?case by simp
next
  case (Cons v vs)
  have "key v \<notin> set (map key (distinct_reps key (key v # seen) vs))"
    by (simp only: distinct_reps_keys) simp
  then show ?case
    using Cons.IH by simp
qed

lemma distinct_reps_subset: "set (distinct_reps key seen vs) \<subseteq> set vs"
  by (induction vs arbitrary: seen) auto

lemma select_distinct_ordered_props:
  "\<exists>vs. select_distinct_ordered key cs = map Some vs @ (if None \<in> set cs then [None] else []) \<and>
        sorted_wrt (<) (map key vs) \<and> key ` set vs = key ` set (non_null cs) \<and>
        set vs \<subseteq> set (non_null cs) \<and> length vs = count_distinct key cs"
proof -
  let ?reps = "distinct_reps key [] (non_null cs)"
  let ?vs = "sort_key key ?reps"
  have d: "distinct (map key ?reps)"
    by (rule distinct_reps_distinct)
  have k: "set (map key ?reps) = set (map key (non_null cs))"
    by (simp only: distinct_reps_keys) simp
  have "mset (map key ?vs) = mset (map key ?reps)"
    by simp
  then have "distinct (map key ?vs)"
    using d by (metis mset_eq_imp_distinct_iff)
  moreover have "sorted (map key ?vs)"
    by simp
  ultimately have s: "sorted_wrt (<) (map key ?vs)"
    by (simp add: strict_sorted_iff)
  have "length ?vs = length (map key ?reps)"
    by simp
  also have "\<dots> = card (set (map key ?reps))"
    using d by (simp only: distinct_card)
  also have "\<dots> = count_distinct key cs"
    by (simp only: k count_distinct_def length_remdups_card_conv)
  finally have l: "length ?vs = count_distinct key cs" .
  have "key ` set ?vs = key ` set (non_null cs)"
    using k by simp
  moreover have "set ?vs \<subseteq> set (non_null cs)"
    using distinct_reps_subset [of key "[]" "non_null cs"] by simp
  ultimately show ?thesis
    using s l by (intro exI [of _ ?vs]) (simp add: select_distinct_ordered_def)
qed

lemma column_index_Some:
  "n \<in> fst ` set cols \<Longrightarrow> \<exists>i. column_index norm n cols = Some i"
  by (induction cols) auto

lemma column_cells_own:
  "c \<in> set (columns t) \<Longrightarrow> \<exists>cs. column_cells norm t (fst c) = Some cs"
  using column_index_Some [of "fst c" "columns t" norm] by (auto simp: column_cells_def)

lemma plain_statements:
  assumes "CHR 0x22 \<notin> set n"
    and "resolve_table (ident_fold env) db tn = Some t"
    and "column_cells (ident_fold env) t n = Some cs"
  shows "distinct_values_query env fs db tn n =
           (Inr (count_distinct (sql_key env) cs < 10), fs, db)"
    and "values_query env fs db tn n = (Inr (select_distinct_ordered (sql_key env) cs), fs, db)"
  using assms by (simp_all add: distinct_values_query_def values_query_def select_column_def)

lemma schema_loop_lines:
  assumes "resolve_table (ident_fold env) db tn = Some t"
    and "\<forall>c\<in>set cols. CHR 0x22 \<notin> set (fst c) \<and> column_cells (ident_fold env) t (fst c) \<noteq> None"
  shows "\<exists>lines.
           schema_loop env fs db tn cols schema_info = (Inr (schema_info @ concat lines), fs, db) \<and>
           list_all2 (is_schema_line env t) cols lines"
  using assms(2)
proof (induction cols arbitrary: schema_info)
  case Nil
  then show ?case by simp
next
  case (Cons c cols)
  obtain n ty where c: "c = (n, ty)"
    by (cases c)
  have plain: "CHR 0x22 \<notin> set n"
    using Cons.prems c by simp
  obtain cs where cs: "column_cells (ident_fold env) t n = Some cs"
    using Cons.prems c by auto
  obtain vs where vs:
    "select_distinct_ordered (sql_key env) cs =
       map Some vs @ (if None \<in> set cs then [None] else [])"
    "sorted_wrt (<) (map (sql_key env) vs)"
    "sql_key env ` set vs = sql_key env ` set (non_null cs)"
    "set vs \<subseteq> set (non_null cs)" "length vs = count_distinct (sql_key env) cs"
    using select_distinct_ordered_props [of "sql_key env" cs] by blast
  define line where "line = ''Column: '' @ n @ '', Type: '' @ ty @
      (if count_distinct (sql_key env) cs < 10
       then '', Possible values: '' @
            join '', '' (map (py_str env)
              (map Some vs @ (if None \<in> set cs then [None] else [])))
       else []) @ nl"
  have step: "schema_loop env fs db tn (c # cols) schema_info =
                schema_loop env fs db tn cols (schema_info @ line)"
    using vs(1)
    by (simp add: c line_def plain_statements [OF plain assms(1) cs] Let_def)
  have "\<forall>c\<in>set cols. CHR 0x22 \<notin> set (fst c) \<and> column_cells (ident_fold env) t (fst c) \<noteq> None"
    using Cons.prems by simp
  from Cons.IH [OF this, of "schema_info @ line"] obtain lines where lines:
    "schema_loop env fs db tn cols (schema_info @ line) =
       (Inr ((schema_info @ line) @ concat lines), fs, db)"
    "list_all2 (is_schema_line env t) cols lines"
    by blast
  have head: "is_schema_line env t (n, ty) line"
    using cs vs(2,3,4,5) line_def by auto
  show ?case
  proof (intro exI [of _ "line # lines"] conjI)
    show "schema_loop env fs db tn (c # cols) schema_info =
            (Inr (schema_info @ concat (line # lines)), fs, db)"
      using step lines(1) by simp
    show "list_all2 (is_schema_line env t) (c # cols) (line # lines)"
      using head lines(2) by (simp add: c)
  qed
qed

subsection \<open>The report\<close>

lemma columns_of_named:
  "filter (\<lambda>(s, n, c, i, ty). n = tn) (information_schema_columns db) =
     information_schema_columns (filter (\<lambda>e. snd (fst e) = tn) db)"
  by (induction db) (auto simp: information_schema_columns_def split_def)

lemma schema_query_single:
  assumes "filter (\<lambda>e. snd (fst e) = tn) db = [((sch, tn), t)]"
  shows "schema_query db tn = columns t"
proof -
  let ?rows = "map (\<lambda>(i, c). (sch, tn, fst c, Suc i, snd c)) (enumerate 0 (columns t))"
  have rows: "filter (\<lambda>(s, n, c, i, ty). n = tn) (information_schema_columns db) = ?rows"
    by (simp add: columns_of_named assms) (simp add: information_schema_columns_def)
  have "map (\<lambda>(s, n, c, i, ty). i) ?rows = map (Suc \<circ> fst) (enumerate 0 (columns t))"
    by (simp add: split_def comp_def)
  also have "\<dots> = map Suc (map fst (enumerate 0 (columns t)))"
    by (simp only: map_map)
  also have "\<dots> = [Suc 0..<Suc (length (columns t))]"
    by (simp only: map_fst_enumerate map_Suc_upt) simp
  finally have "map (\<lambda>(s, n, c, i, ty). i) ?rows = [Suc 0..<Suc (length (columns t))]" .
  then have "sorted (map (\<lambda>(s, n, c, i, ty). i) ?rows)"
    by (simp only: sorted_upt)
  then have "sort_key (\<lambda>(s, n, c, i, ty). i) ?rows = ?rows"
    by (rule sort_key_id_if_sorted)
  moreover have "map (\<lambda>(s, n, c, i, ty). (c, ty)) ?rows = map snd (enumerate 0 (columns t))"
    by (simp add: split_def comp_def)
  ultimately show ?thesis
    by (simp add: schema_query_def rows del: map_map)
qed

lemma find_only:
  assumes "filter Q xs = [e]" and "P e" and "\<And>x. P x \<Longrightarrow> Q x"
  shows "find P xs = Some e"
  using assms(1)
proof (induction xs)
  case Nil
  then show ?case by simp
next
  case (Cons x xs)
  show ?case
  proof (cases "Q x")
    case True
    then have "x = e"
      using Cons.prems by simp
    then show ?thesis
      using assms(2) by simp
  next
    case False
    then have "\<not> P x"
      using assms(3) by blast
    then show ?thesis
      using Cons False by simp
  qed
qed

lemma only_table:
  assumes "filter (\<lambda>e. norm (snd (fst e)) = norm tn) db = [((''main'', tn), t)]"
  shows "resolve_table norm db tn = Some t"
    and "filter (\<lambda>e. snd (fst e) = tn) db = [((''main'', tn), t)]"
proof -
  have "find (\<lambda>e. fst (fst e) = ''main'' \<and> norm (snd (fst e)) = norm tn) db
          = Some ((''main'', tn), t)"
    by (rule find_only [OF assms]) simp_all
  then show "resolve_table norm db tn = Some t"
    by (simp add: resolve_table_def)
  have "filter (\<lambda>e. snd (fst e) = tn) (filter (\<lambda>e. norm (snd (fst e)) = norm tn) db)
          = filter (\<lambda>e. snd (fst e) = tn) db"
    by (auto intro: filter_cong)
  then show "filter (\<lambda>e. snd (fst e) = tn) db = [((''main'', tn), t)]"
    by (simp add: assms)
qed

lemma load_report_lines:
  assumes "resolve_table (ident_fold env) db tn = Some t"
    and "\<forall>c\<in>set (schema_query db tn).
           CHR 0x22 \<notin> set (fst c) \<and> column_cells (ident_fold env) t (fst c) \<noteq> None"
  shows "\<exists>lines.
           load_report env fs db tn orig =
             (Inr (load_msg (length (rows t)) orig tn @
                   ''Schema Information:'' @ nl @ replicate 50 (CHR ''='') @ nl @ concat lines @
                   sample_info env (map fst (schema_query db tn)) (take 5 (rows t))), fs, db) \<and>
           list_all2 (is_schema_line env t) (schema_query db tn) lines"
proof -
  obtain lines where
    "schema_loop env fs db tn (schema_query db tn)
       (''Schema Information:'' @ nl @ replicate 50 (CHR ''='') @ nl)
       = (Inr ((''Schema Information:'' @ nl @ replicate 50 (CHR ''='') @ nl) @ concat lines),
          fs, db)"
    "list_all2 (is_schema_line env t) (schema_query db tn) lines"
    using schema_loop_lines [OF assms] by blast
  then show ?thesis
    using assms(1)
    by (intro exI [of _ lines])
       (simp add: load_report_def count_rows_def sample_query_def Let_def)
qed

lemma schema_loop_plain:
  assumes "\<forall>c\<in>set cols. CHR 0x22 \<notin> set (fst c)"
  shows "snd (schema_loop env fs db tn cols info) = (fs, db) \<and>
         fst (schema_loop env fs db tn cols info) = fst (schema_loop env fs' db tn cols info)"
  using assms
proof (induction cols arbitrary: info)
  case Nil
  then show ?case by simp
next
  case (Cons c cols)
  obtain n ty where c: "c = (n, ty)"
    by (cases c)
  have plain: "CHR 0x22 \<notin> set n" and rest: "\<forall>c\<in>set cols. CHR 0x22 \<notin> set (fst c)"
    using Cons.prems c by simp_all
  show ?case
    using Cons.IH [OF rest] plain
    by (simp add: c distinct_values_query_def values_query_def Let_def split: sum.splits)
qed

lemma load_report_plain:
  assumes "\<forall>c\<in>set (schema_query db tn). CHR 0x22 \<notin> set (fst c)"
  shows "snd (load_report env fs db tn orig) = (fs, db) \<and>
         fst (load_report env fs db tn orig) = fst (load_report env fs' db tn orig)"
proof -
  have l: "snd (schema_loop env fs db tn (schema_query db tn) info) = (fs, db)"
    "snd (schema_loop env fs' db tn (schema_query db tn) info) = (fs', db)"
    "fst (schema_loop env fs db tn (schema_query db tn) info)
       = fst (schema_loop env fs' db tn (schema_query db tn) info)" for info
    using schema_loop_plain [OF assms, of env fs db tn info fs']
      schema_loop_plain [OF assms, of env fs' db tn info fs] by simp_all
  show ?thesis
    using l [of "''Schema Information:'' @ nl @ replicate 50 (CHR ''='') @ nl"]
    by (auto simp add: load_report_def Let_def split: sum.splits prod.splits)
qed

lemma load_table_shape:
  assumes "load_table env w filename = (Inr (orig, fs, db), w1)"
  shows "orig = path_name env filename" "store w1 = Some db" "files w1 = fs"
    "connect_failure w1 = connect_failure w"
  using assms
  by (auto simp add: load_table_def access_file_def connect_def Let_def
        split: sum.splits prod.splits option.splits)

lemma access_file_shape:
  "fst (access_file env w f) = path_name env f \<and>
   store (snd (snd (access_file env w f))) = store w \<and>
   connect_failure (snd (snd (access_file env w f))) = connect_failure w \<and>
   remove_failure (snd (snd (access_file env w f))) = remove_failure w"
  by (simp add: access_file_def Let_def split: sum.splits prod.splits)

text \<open>
  The report of a load after which \<^verbatim>\<open>customers\<close> names one table of the store, whose
  column names hold no double quote.
\<close>

lemma load_data_lines:
  assumes "load_table env w filename = (Inr (orig_filename, fs, db), w1)"
    and "filter (\<lambda>e. ident_fold env (snd (fst e)) = ident_fold env ''customers'') db
           = [((''main'', ''customers''), t)]"
    and "\<forall>c\<in>set (columns t). CHR 0x22 \<notin> set (fst c)"
  shows "\<exists>lines.
           load_data env w filename =
             (Inr (load_msg (length (rows t)) orig_filename ''customers'' @
                   ''Schema Information:'' @ nl @ replicate 50 (CHR ''='') @ nl @ concat lines @
                   sample_info env (map fst (columns t)) (take 5 (rows t))), w1) \<and>
           list_all2 (is_schema_line env t) (columns t) lines"
proof -
  have r: "resolve_table (ident_fold env) db ''customers'' = Some t"
    and q: "schema_query db ''customers'' = columns t"
    using only_table [OF assms(2)] schema_query_single by blast+
  have "\<forall>c\<in>set (schema_query db ''customers'').
          CHR 0x22 \<notin> set (fst c) \<and> column_cells (ident_fold env) t (fst c) \<noteq> None"
    using assms(3) column_cells_own [of _ t "ident_fold env"] by (auto simp: q)
  from load_report_lines [OF r this, of fs orig_filename] obtain lines where
    "load_report env fs db ''customers'' orig_filename =
       (Inr (load_msg (length (rows t)) orig_filename ''customers'' @
             ''Schema Information:'' @ nl @ replicate 50 (CHR ''='') @ nl @ concat lines @
             sample_info env (map fst (columns t)) (take 5 (rows t))), fs, db)"
    "list_all2 (is_schema_line env t) (columns t) lines"
    unfolding q by blast
  moreover have "w1\<lparr>store := Some db, files := fs\<rparr> = w1"
    using load_table_shape(2,3) [OF assms(1)] by simp
  ultimately show ?thesis
    using assms(1) by (intro exI [of _ lines]) (simp add: load_data_def)
qed

subsection \<open>Evaluation on the example host\<close>

lemmas sql_defs = count_rows_def schema_query_def sample_query_def distinct_values_query_def
  values_query_def select_column_def column_cells_def count_distinct_def
  select_distinct_ordered_def cell_def resolve_table_def information_schema_columns_def
  create_table_if_not_exists_def enumerate_eq_zip

lemmas text_defs = py_str_def str_int_def str_nat.simps digit_def lower_char_def
  sample_info_def add_rows_def

lemma example_load_table:
  "fst (load_table example_env example_world ''report.csv'') =
     Inr (''report.csv'', files example_world, [((''main'', ''customers''), example_table)])"
  by (simp add: load_table_def access_file_def connect_def create_table_if_not_exists_def
        resolve_table_def example_env_def example_world_def example_table_def no_file_def
        injected_filename_def Let_def)


lemma example_len: "length (rows example_table) = 11"
  by (simp add: example_table_def)

lemma example_report:
  "fst (load_data example_env example_world ''report.csv'') =
     Inr (load_msg 11 ''report.csv'' ''customers'' @
          ''Schema Information:'' @ nl @ replicate 50 (CHR ''='') @ nl @
          ''Column: id, Type: BIGINT'' @ nl @
          ''Column: grade, Type: BIGINT, Possible values: 10, 20, 30, 40, 50, 60, 70, 80, 90, None''
          @ nl @
          nl @ ''Sample Data (5 rows):'' @ nl @ replicate 50 (CHR ''='') @ nl @
          ''id | grade'' @ nl @ replicate 50 (CHR ''-'') @ nl @
          ''1 | 30'' @ nl @ ''2 | 10'' @ nl @ ''3 | 40'' @ nl @ ''4 | 10'' @ nl @ ''5 | 50'' @ nl)"
  unfolding example_len [symmetric]
  by (simp add: load_data_def load_table_def access_file_def connect_def load_report_def
        sql_defs text_defs example_env_def no_file_def injected_filename_def injected_column_def
        example_world_def example_table_def Let_def)

lemmas load_defs = load_data_def load_table_def access_file_def connect_def load_report_def
  sql_defs text_defs example_env_def no_file_def injected_filename_def injected_column_def
  example_world_def example_table_def Let_def


lemma example_first_world:
  "snd (load_data example_env example_world ''report.csv'') =
     example_world\<lparr>stdout := [fallback_msg (Exception ''File not found: report.csv'')],
       store := Some [((''main'', ''customers''), example_table)]\<rparr>"
  by (simp add: load_defs)

lemma example_second_report:
  "fst (load_data example_env
         (example_world\<lparr>stdout := [fallback_msg (Exception ''File not found: report.csv'')],
            store := Some [((''main'', ''customers''), example_table)]\<rparr>) ''report.csv'') =
   fst (load_data example_env example_world ''report.csv'')"
  by (simp add: load_defs)

lemma load_msg_prefix:
  "take 27 (load_msg 22 f t @ rest) = ''Successfully loaded 22 rows''"
  "take 27 (load_msg 33 f t @ rest) = ''Successfully loaded 33 rows''"
  by (simp_all add: load_msg_def str_nat.simps digit_def)

lemma example_plain:
  "\<forall>c\<in>set (columns (example_table\<lparr>rows := rs\<rparr>)). CHR 0x22 \<notin> set (fst c)"
  by (simp add: example_table_def)

lemma example_only:
  "filter (\<lambda>e. ident_fold example_env (snd (fst e)) = ident_fold example_env ''customers'')
     [((''main'', ''customers''), t)] = [((''main'', ''customers''), t)]"
  by (simp add: example_env_def)

lemma injected_first_table:
  "fst (load_table example_env example_world injected_filename) =
     Inr (injected_filename, files example_world,
          [((''main'', ''customers''),
            example_table\<lparr>rows := rows example_table @ rows example_table\<rparr>)])"
  by (simp add: load_table_def access_file_def connect_def create_table_if_not_exists_def
        resolve_table_def example_env_def example_world_def no_file_def
        injected_filename_def create_text_def quote_def example_create_and_insert_def Let_def
        lower_char_def example_table_def)

lemma injected_second_table:
  assumes "store w = Some [((''main'', ''customers''),
             example_table\<lparr>rows := rows example_table @ rows example_table\<rparr>)]"
    and "files w = files example_world" and "connect_failure w = None"
  shows "fst (load_table example_env w injected_filename) =
     Inr (injected_filename, files example_world,
          [((''main'', ''customers''),
            example_table\<lparr>rows := rows example_table @ rows example_table
                                    @ rows example_table\<rparr>)])"
  using assms
  by (simp add: load_table_def access_file_def connect_def create_table_if_not_exists_def
        resolve_table_def example_env_def example_world_def no_file_def
        injected_filename_def create_text_def quote_def example_create_and_insert_def Let_def
        lower_char_def example_table_def)

subsection \<open>The schema section\<close>




subsection \<open>Loading twice\<close>

text \<open>
  C4, amended. Let two consecutive loads of the same filename both return a report, the
  column names that the schema query gives hold no double quote, and the path that the
  second load reads hold no single quote. Then the second report is the first one, row
  count included, and the second load leaves the store as the first left it: the table
  is the one that the statement of line 34 left at the first load.
\<close>

theorem load_data_twice:
  assumes "load_table env w filename = (Inr (orig_filename, fs, db), wa)"
    and "\<forall>c\<in>set (schema_query db ''customers''). CHR 0x22 \<notin> set (fst c)"
    and "load_data env w filename = (Inr r1, w1)"
    and "load_data env w1 filename = (Inr r2, w2)"
    and "CHR 0x27 \<notin> set (fst (snd (access_file env w1 filename)))"
  shows "r2 = r1 \<and> store w2 = store w1 \<and>
         (\<exists>t rest. store w1 = Some db \<and>
            resolve_table (ident_fold env) db ''customers'' = Some t \<and>
            r1 = load_msg (length (rows t)) (path_name env filename) ''customers'' @ rest)"
proof -
  note plain = load_report_plain [OF assms(2)]
  have orig: "orig_filename = path_name env filename"
    using load_table_shape(1) [OF assms(1)] .
  have first: "fst (load_report env fs db ''customers'' orig_filename) = Inr r1"
    "w1 = wa\<lparr>store := Some db, files := fs\<rparr>"
    using assms(1,3) plain [of env fs orig_filename fs]
    by (auto simp add: load_data_def split: prod.splits)
  obtain t where t: "resolve_table (ident_fold env) db ''customers'' = Some t"
    and rows: "\<exists>rest. r1 = load_msg (length (rows t)) orig_filename ''customers'' @ rest"
    using first(1)
    by (auto simp add: load_report_def count_rows_def Let_def
          split: option.splits sum.splits prod.splits)
  have w1: "store w1 = Some db" "connect_failure w1 = connect_failure wa"
    using first(2) by simp_all
  obtain path2 wb where a2: "access_file env w1 filename = (path_name env filename, path2, wb)"
    using access_file_shape [of env w1 filename]
    by (cases "access_file env w1 filename") auto
  have wb: "store wb = Some db" "connect_failure wb = connect_failure w1"
    using access_file_shape [of env w1 filename] a2 w1(1) by simp_all
  have p2: "CHR 0x27 \<notin> set path2"
    using assms(5) a2 by simp
  have second_table:
    "load_table env w1 filename = (Inr (path_name env filename, files wb, db),
        wb\<lparr>store := Some db, files := files wb\<rparr>)"
    using assms(4) a2 wb p2 t
    by (auto simp add: load_data_def load_table_def connect_def create_table_if_not_exists_def
          Let_def split: option.splits sum.splits prod.splits)
  have "fst (load_report env (files wb) db ''customers'' orig_filename) = Inr r2"
    "store w2 = Some db"
    using assms(4) second_table orig plain [of env "files wb" orig_filename fs]
    by (auto simp add: load_data_def split: prod.splits)
  then have "r2 = r1"
    using first(1) plain [of env "files wb" orig_filename fs] by simp
  then show ?thesis
    using \<open>store w2 = Some db\<close> w1(1) t rows orig by auto
qed

text \<open>
  On the example host, loading \<^verbatim>\<open>report.csv\<close> twice gives the same report of 11 rows
  and the same store.
\<close>

theorem load_data_twice_witness:
  "fst (load_table example_env example_world ''report.csv'') =
     Inr (''report.csv'', files example_world, [((''main'', ''customers''), example_table)]) \<and>
   schema_query [((''main'', ''customers''), example_table)] ''customers'' =
     [(''id'', ''BIGINT''), (''grade'', ''BIGINT'')] \<and>
   CHR 0x22 \<notin> set ''id'' \<and> CHR 0x22 \<notin> set ''grade'' \<and>
   fst (snd (access_file example_env
               (snd (load_data example_env example_world ''report.csv'')) ''report.csv''))
     = ''report.csv'' \<and>
   CHR 0x27 \<notin> set ''report.csv'' \<and>
   \<not> isl (fst (load_data example_env example_world ''report.csv'')) \<and>
   \<not> isl (fst (load_data example_env
                  (snd (load_data example_env example_world ''report.csv'')) ''report.csv'')) \<and>
   fst (load_data example_env
          (snd (load_data example_env example_world ''report.csv'')) ''report.csv'') =
     fst (load_data example_env example_world ''report.csv'') \<and>
   store (snd (load_data example_env
                 (snd (load_data example_env example_world ''report.csv'')) ''report.csv'')) =
     store (snd (load_data example_env example_world ''report.csv'')) \<and>
   store (snd (load_data example_env example_world ''report.csv'')) =
     Some [((''main'', ''customers''), example_table)] \<and>
   length (rows example_table) = 11 \<and>
   take 27 (projr (fst (load_data example_env example_world ''report.csv''))) =
     ''Successfully loaded 11 rows''"
proof -
  obtain wa where lt: "load_table example_env example_world ''report.csv'' =
      (Inr (''report.csv'', files example_world, [((''main'', ''customers''), example_table)]), wa)"
    using example_load_table by (cases "load_table example_env example_world ''report.csv''") auto
  have q: "schema_query [((''main'', ''customers''), example_table)] ''customers'' =
      [(''id'', ''BIGINT''), (''grade'', ''BIGINT'')]"
    by (simp add: sql_defs example_table_def)
  have plain: "\<forall>c\<in>set (schema_query [((''main'', ''customers''), example_table)] ''customers'').
      CHR 0x22 \<notin> set (fst c)"
    unfolding q by simp
  obtain r1 w1 where l1: "load_data example_env example_world ''report.csv'' = (Inr r1, w1)"
    using example_report by (cases "load_data example_env example_world ''report.csv''") auto
  have w1: "w1 = example_world\<lparr>stdout := [fallback_msg (Exception ''File not found: report.csv'')],
       store := Some [((''main'', ''customers''), example_table)]\<rparr>"
    using example_first_world l1 by simp
  obtain r2 w2 where l2: "load_data example_env w1 ''report.csv'' = (Inr r2, w2)"
    using example_second_report l1 unfolding w1 [symmetric]
    by (cases "load_data example_env w1 ''report.csv''") auto
  have p: "fst (snd (access_file example_env w1 ''report.csv'')) = ''report.csv''"
    by (simp add: access_file_def example_env_def Let_def)
  then have "CHR 0x27 \<notin> set (fst (snd (access_file example_env w1 ''report.csv'')))"
    by simp
  from load_data_twice [OF lt plain l1 l2 this]
  have "r2 = r1" "store w2 = store w1"
    "store w1 = Some [((''main'', ''customers''), example_table)]"
    by auto
  moreover have "take 27 r1 = ''Successfully loaded 11 rows''"
    using example_report l1 by (simp add: load_msg_def str_nat.simps digit_def)
  ultimately show ?thesis
    using example_load_table q p l1 l2 example_len by simp
qed

text \<open>
  C4, as claimed for every filename: line 34 splices the path between single quotes. The
  filename \<^verbatim>\<open>report.csv'); INSERT INTO customers SELECT * FROM read_csv_auto('report.csv\<close>
  makes the text two statements, and the second one runs on every load: with a file of
  11 rows, the first load reports 22 rows and the second 33, and the table grows
  accordingly.
\<close>

theorem injected_filename_duplicates_rows:
  "files example_world = [(''report.csv'', example_table)] \<and>
   length (rows example_table) = 11 \<and>
   CHR 0x27 \<in> set injected_filename \<and>
   \<not> isl (fst (load_data example_env example_world injected_filename)) \<and>
   \<not> isl (fst (load_data example_env
                  (snd (load_data example_env example_world injected_filename))
                  injected_filename)) \<and>
   take 27 (projr (fst (load_data example_env example_world injected_filename))) =
     ''Successfully loaded 22 rows'' \<and>
   take 27 (projr (fst (load_data example_env
                          (snd (load_data example_env example_world injected_filename))
                          injected_filename))) =
     ''Successfully loaded 33 rows'' \<and>
   store (snd (load_data example_env example_world injected_filename)) =
     Some [((''main'', ''customers''),
            example_table\<lparr>rows := rows example_table @ rows example_table\<rparr>)] \<and>
   store (snd (load_data example_env
                 (snd (load_data example_env example_world injected_filename))
                 injected_filename)) =
     Some [((''main'', ''customers''),
            example_table\<lparr>rows := rows example_table @ rows example_table
                                    @ rows example_table\<rparr>)]"
proof -
  let ?t2 = "example_table\<lparr>rows := rows example_table @ rows example_table\<rparr>"
  let ?t3 = "example_table\<lparr>rows := rows example_table @ rows example_table
                                        @ rows example_table\<rparr>"
  obtain w1 where lt1: "load_table example_env example_world injected_filename =
      (Inr (injected_filename, files example_world, [((''main'', ''customers''), ?t2)]), w1)"
    using injected_first_table
    by (cases "load_table example_env example_world injected_filename") auto
  from load_data_lines [OF lt1 example_only example_plain] obtain lines1 where
    l1: "load_data example_env example_world injected_filename =
      (Inr (load_msg (length (rows ?t2)) injected_filename ''customers'' @
            ''Schema Information:'' @ nl @ replicate 50 (CHR ''='') @ nl @ concat lines1 @
            sample_info example_env (map fst (columns ?t2)) (take 5 (rows ?t2))), w1)"
    by blast
  have len2: "length (rows ?t2) = 22"
    by (simp add: example_table_def)
  note w1 = load_table_shape(2-4) [OF lt1]
  have cf: "connect_failure w1 = None"
    using w1(3) by (simp add: example_world_def)
  obtain w2 where lt2: "load_table example_env w1 injected_filename =
      (Inr (injected_filename, files example_world, [((''main'', ''customers''), ?t3)]), w2)"
    using injected_second_table [OF w1(1,2) cf]
    by (cases "load_table example_env w1 injected_filename") auto
  from load_data_lines [OF lt2 example_only example_plain] obtain lines2 where
    l2: "load_data example_env w1 injected_filename =
      (Inr (load_msg (length (rows ?t3)) injected_filename ''customers'' @
            ''Schema Information:'' @ nl @ replicate 50 (CHR ''='') @ nl @ concat lines2 @
            sample_info example_env (map fst (columns ?t3)) (take 5 (rows ?t3))), w2)"
    by blast
  have len3: "length (rows ?t3) = 33"
    by (simp add: example_table_def)
  have q: "CHR 0x27 \<in> set injected_filename"
    by (simp add: injected_filename_def quote_def)
  show ?thesis
    unfolding l1 l2 fst_conv snd_conv len2 len3 sum.sel load_msg_prefix
    using q w1(1) load_table_shape(2) [OF lt2] example_len
    by (simp add: example_world_def)
qed

subsection \<open>The sample section\<close>

text \<open>
  C7. The header of the sample section is claimed to be the column names of the table.
  The header is built from the schema query of lines 44-49, which selects the columns
  by table name alone, in every schema, where the listing of lines 110-115 keeps the
  schema \<^verbatim>\<open>main\<close>; the rows are those of \<^verbatim>\<open>main.customers\<close>. On a store that also holds a
  table \<^verbatim>\<open>s.customers\<close> with the column \<^verbatim>\<open>id\<close>, the table \<^verbatim>\<open>customers\<close> has the columns
  \<^verbatim>\<open>id\<close> and \<^verbatim>\<open>grade\<close> and the header reads \<^verbatim>\<open>id | id | grade\<close>, over rows of two
  values; the schema section has a line for the foreign column as well.
\<close>

theorem foreign_columns_in_sample_header:
  "store two_schema_world = Some two_schema_store \<and>
   resolve_table (ident_fold example_env) two_schema_store ''customers'' = Some example_table \<and>
   columns example_table = [(''id'', ''BIGINT''), (''grade'', ''BIGINT'')] \<and>
   fst (load_data example_env two_schema_world ''report.csv'') =
     Inr (load_msg 11 ''report.csv'' ''customers'' @
          ''Schema Information:'' @ nl @ replicate 50 (CHR ''='') @ nl @
          ''Column: id, Type: INTEGER'' @ nl @
          ''Column: id, Type: BIGINT'' @ nl @
          ''Column: grade, Type: BIGINT, Possible values: 10, 20, 30, 40, 50, 60, 70, 80, 90, None''
          @ nl @
          nl @ ''Sample Data (5 rows):'' @ nl @ replicate 50 (CHR ''='') @ nl @
          ''id | id | grade'' @ nl @ replicate 50 (CHR ''-'') @ nl @
          ''1 | 30'' @ nl @ ''2 | 10'' @ nl @ ''3 | 40'' @ nl @ ''4 | 10'' @ nl @ ''5 | 50'' @ nl)"
  unfolding example_len [symmetric]
  by (simp add: load_defs two_schema_world_def two_schema_store_def)

end
